theory Spec2Isabelle
  imports Main "HOL-Library.Word" "HOL-Library.Sublist"
begin

section \<open>Strings of the host language\<close>

text \<open>
  A JavaScript string is a sequence of UTF-16 code units; \<open>length\<close> counts code units,
  which is what \<open>message.length\<close> reads. The literals of the source are ASCII and are
  written through \<open>js\<close>.
\<close>

type_synonym jsstring = "16 word list"

definition js :: "string \<Rightarrow> jsstring" where
  "js s = map (\<lambda>c. of_nat (of_char c)) s"

text \<open>
  \<open>String.prototype.trim\<close> strips WhiteSpace and LineTerminator code units from both
  ends: TAB, LF, VT, FF, CR, SP, NBSP, the Unicode space separators, LS, PS and the
  byte order mark.
\<close>

definition isWhiteSpace :: "16 word \<Rightarrow> bool" where
  "isWhiteSpace c =
     (c \<in> set [0x0009, 0x000A, 0x000B, 0x000C, 0x000D, 0x0020, 0x00A0, 0x1680,
               0x2000, 0x2001, 0x2002, 0x2003, 0x2004, 0x2005, 0x2006, 0x2007,
               0x2008, 0x2009, 0x200A, 0x2028, 0x2029, 0x202F, 0x205F, 0x3000,
               0xFEFF])"

definition trim :: "jsstring \<Rightarrow> jsstring" where
  "trim s = rev (dropWhile isWhiteSpace (rev (dropWhile isWhiteSpace s)))"

text \<open>
  The template literal renders \<open>Date.now()\<close>, a count of milliseconds, in decimal.
\<close>

fun toString :: "nat \<Rightarrow> jsstring" where
  "toString n =
     (if n < 10 then [of_nat (48 + n)]
      else toString (n div 10) @ [of_nat (48 + n mod 10)])"

declare toString.simps [simp del]

section \<open>Data model\<close>

text \<open>
  \<open>interface Post\<close> of \<open>page.tsx\<close>. The field names \<open>id\<close> and \<open>message\<close> are taken
  (by the identity function and by the controller's draft text), so they carry a suffix.
  \<open>created_at\<close> is the store's timestamp; the controller carries it as text and never
  looks inside it, so it stays a parameter \<open>'t\<close>, ordered where a claim compares
  timestamps.
\<close>

record 't Post =
  id_post :: int
  message_post :: jsstring
  image_url :: "jsstring option"
  created_at :: 't

text \<open>The browser's \<open>File\<close>: its name, its media type and its content.\<close>

record File =
  name :: jsstring
  type :: jsstring
  bytes :: "8 word list"

section \<open>The Supabase client, as the gateway sees it\<close>

text \<open>
  Every call of the client is awaited and destructured as \<open>{ data, error }\<close>. The
  promise may also reject; the callers of the gateway wrap their calls in
  \<open>try\<close>/\<open>catch\<close> for that case. A call acts on the backing service \<open>'w\<close>.
\<close>

record SupabaseError =
  message_error :: "jsstring option"

datatype 'a reply = Resolved "'a option" "SupabaseError option" | Rejected

datatype 'a outcome = Returned 'a | Threw

record UploadData =
  path :: jsstring

record UploadResult = UploadData +
  publicURL :: jsstring

section \<open>Data gateway: \<open>src/lib/supabase.js\<close>\<close>

text \<open>
  A gateway result is \<open>{ error: message }\<close> (\<open>Inl\<close>) or \<open>{ data }\<close> (\<open>Inr\<close>).
  \<open>error.message || "An error occurred"\<close> falls back on a missing or empty message.
\<close>

definition handleSupabaseError :: "SupabaseError \<Rightarrow> jsstring" where
  "handleSupabaseError err =
     (case message_error err of
        None \<Rightarrow> js ''An error occurred''
      | Some m \<Rightarrow> if m = [] then js ''An error occurred'' else m)"

definition fetchPosts ::
  "('w \<Rightarrow> 't Post list reply \<times> 'w) \<Rightarrow> 'w \<Rightarrow> (jsstring + 't Post list option) outcome \<times> 'w"
where
  "fetchPosts select_posts w =
     (case select_posts w of
        (Rejected, w') \<Rightarrow> (Threw, w')
      | (Resolved data err, w') \<Rightarrow>
          (case err of
             Some e \<Rightarrow> (Returned (Inl (handleSupabaseError e)), w')
           | None \<Rightarrow> (Returned (Inr data), w')))"

definition createPost ::
  "(jsstring \<Rightarrow> jsstring option \<Rightarrow> 'w \<Rightarrow> 't Post list reply \<times> 'w) \<Rightarrow>
   jsstring \<Rightarrow> jsstring option \<Rightarrow> 'w \<Rightarrow> (jsstring + 't Post list option) outcome \<times> 'w"
where
  "createPost insert_posts msg imageUrl w =
     (case insert_posts msg imageUrl w of
        (Rejected, w') \<Rightarrow> (Threw, w')
      | (Resolved data err, w') \<Rightarrow>
          (case err of
             Some e \<Rightarrow> (Returned (Inl (handleSupabaseError e)), w')
           | None \<Rightarrow> (Returned (Inr data), w')))"

text \<open>
  \<open>uploadImage\<close> passes \<open>upsert: false\<close> (the third argument of the client call here).
  With neither data nor error, reading \<open>data.path\<close> throws.
\<close>

definition uploadImage ::
  "(jsstring \<Rightarrow> File \<Rightarrow> bool \<Rightarrow> 'w \<Rightarrow> UploadData reply \<times> 'w) \<Rightarrow> (jsstring \<Rightarrow> jsstring) \<Rightarrow>
   File \<Rightarrow> jsstring \<Rightarrow> 'w \<Rightarrow> (jsstring + UploadResult) outcome \<times> 'w"
where
  "uploadImage storage_upload getPublicUrl file fileName w =
     (case storage_upload fileName file False w of
        (Rejected, w') \<Rightarrow> (Threw, w')
      | (Resolved data err, w') \<Rightarrow>
          (case err of
             Some e \<Rightarrow> (Returned (Inl (handleSupabaseError e)), w')
           | None \<Rightarrow>
               (case data of
                  None \<Rightarrow> (Threw, w')
                | Some d \<Rightarrow>
                    (Returned (Inr \<lparr>path = path d, publicURL = getPublicUrl fileName\<rparr>), w'))))"

section \<open>Feed controller: the component \<open>Home\<close> of \<open>src/app/page.tsx\<close>\<close>

text \<open>The six \<open>useState\<close> cells of the component, with their initial values.\<close>

record 't Home =
  posts :: "'t Post list"
  message :: jsstring
  isSubmitting :: bool
  selectedFile :: "File option"
  filePreview :: "jsstring option"
  error :: "jsstring option"

definition MAX_CHARACTERS :: nat where
  "MAX_CHARACTERS = 280"

definition initial :: "'t Home" where
  "initial =
     \<lparr>posts = [], message = [], isSubmitting = False, selectedFile = None,
      filePreview = None, error = None\<rparr>"

text \<open>
  What a submission reads from outside the component: the clock, the two client calls
  behind the gateway and the URL scheme of the bucket.
\<close>

record ('w, 't) Env =
  Date_now :: nat
  storage_upload :: "jsstring \<Rightarrow> File \<Rightarrow> bool \<Rightarrow> 'w \<Rightarrow> UploadData reply \<times> 'w"
  insert_posts :: "jsstring \<Rightarrow> jsstring option \<Rightarrow> 'w \<Rightarrow> 't Post list reply \<times> 'w"
  getPublicUrl :: "jsstring \<Rightarrow> jsstring"

text \<open>The gateway calls a handler makes, in order, with their arguments.\<close>

datatype call =
  SelectPosts | UploadImage File jsstring | CreatePost jsstring "jsstring option"

text \<open>
  \<open>fetchInitialPosts\<close> awaits the list query (ordered by \<open>created_at\<close>, descending, by
  the store) and has no handler of its own: a rejected promise leaves every cell as it
  was.
\<close>

definition fetchInitialPosts :: "'t Post list reply \<Rightarrow> 't Home \<Rightarrow> 't Home" where
  "fetchInitialPosts r s =
     (case r of
        Rejected \<Rightarrow> s
      | Resolved data err \<Rightarrow>
          (let s1 = (case data of Some d \<Rightarrow> s\<lparr>posts := d\<rparr> | None \<Rightarrow> s)
           in case err of
                Some e \<Rightarrow> s1\<lparr>error := Some (js ''Failed to load posts. Please refresh the page.'')\<rparr>
              | None \<Rightarrow> s1))"

text \<open>The callback of the subscription to INSERT events on the table \<open>posts\<close>.\<close>

definition postsSubscription :: "'t Post \<Rightarrow> 't Home \<Rightarrow> 't Home" where
  "postsSubscription new s = s\<lparr>posts := new # posts s\<rparr>"

text \<open>
  \<open>handleFileChange\<close>: \<open>files\<close> is \<open>e.target.files\<close>; \<open>readAsDataURL\<close> gives the reader's
  result, a string or nothing. The reader's completion is taken together with the
  event that started it.
\<close>

definition handleFileChange ::
  "(File \<Rightarrow> jsstring option) \<Rightarrow> File list \<Rightarrow> 't Home \<Rightarrow> 't Home"
where
  "handleFileChange readAsDataURL files s =
     (case files of
        [] \<Rightarrow> s\<lparr>selectedFile := None, filePreview := None\<rparr>
      | file # rest \<Rightarrow>
          (let s1 = s\<lparr>selectedFile := Some file\<rparr>
           in if prefix (js ''image/'') (type file)
              then (case readAsDataURL file of
                      Some result \<Rightarrow> s1\<lparr>filePreview := Some result\<rparr>
                    | None \<Rightarrow> s1)
              else s1))"

text \<open>
  \<open>handleSubmit\<close> is an asynchronous function: it runs to its first \<open>await\<close>, is
  suspended while the gateway call is pending, and is resumed with the call's outcome
  on the cells as they are then. Its three stretches are written out one by one, with
  \<open>try\<close>/\<open>catch\<close>/\<open>finally\<close> unfolded. What a suspended call of the handler still holds
  is a \<open>task\<close>: the message it read when it started, and the gateway call it waits for.
\<close>

datatype task = AwaitUpload jsstring File jsstring | AwaitCreate jsstring "jsstring option"

fun awaited :: "task \<Rightarrow> call" where
  "awaited (AwaitUpload msg file fileName) = UploadImage file fileName"
| "awaited (AwaitCreate msg imageUrl) = CreatePost msg imageUrl"

text \<open>
  From the submit event to the first \<open>await\<close>: the two guards, \<open>setIsSubmitting(true)\<close>,
  \<open>setError(null)\<close>, and the first gateway call, which is \<open>uploadImage\<close> when a file is
  selected and \<open>createPost\<close> otherwise. \<open>now\<close> is what \<open>Date.now()\<close> reads.
\<close>

definition handleSubmit_enter :: "nat \<Rightarrow> 't Home \<Rightarrow> 't Home \<times> task option" where
  "handleSubmit_enter now s =
     (if trim (message s) = [] \<and> selectedFile s = None then (s, None)
      else if MAX_CHARACTERS < length (message s) then (s, None)
      else
        (s\<lparr>isSubmitting := True, error := None\<rparr>,
         Some (case selectedFile s of
                 None \<Rightarrow> AwaitCreate (message s) None
               | Some file \<Rightarrow>
                   AwaitUpload (message s) file (toString now @ js ''-'' @ name file))))"

text \<open>
  Resumed after \<open>await uploadImage\<close>: a thrown call goes through \<open>catch\<close> and \<open>finally\<close>, a
  returned failure through \<open>setError\<close>, \<open>return\<close> and \<open>finally\<close>; a success gives the
  image URL for \<open>createPost\<close>, which is called next.
\<close>

definition handleSubmit_uploaded ::
  "(jsstring + UploadResult) outcome \<Rightarrow> 't Home \<Rightarrow> 't Home \<times> jsstring option"
where
  "handleSubmit_uploaded r s =
     (case r of
        Threw \<Rightarrow>
          (s\<lparr>error := Some (js ''Failed to create post. Please try again.''),
             isSubmitting := False\<rparr>, None)
      | Returned (Inl e) \<Rightarrow>
          (s\<lparr>error := Some (js ''Failed to upload image. Please try again.''),
             isSubmitting := False\<rparr>, None)
      | Returned (Inr result) \<Rightarrow> (s, Some (publicURL result)))"

text \<open>
  Resumed after \<open>await createPost\<close>: what the call returned is not read; the draft is
  cleared unless the call threw.
\<close>

definition handleSubmit_created ::
  "(jsstring + 't Post list option) outcome \<Rightarrow> 't Home \<Rightarrow> 't Home"
where
  "handleSubmit_created r s =
     (case r of
        Threw \<Rightarrow>
          s\<lparr>error := Some (js ''Failed to create post. Please try again.''),
            isSubmitting := False\<rparr>
      | Returned result \<Rightarrow>
          s\<lparr>message := [], selectedFile := None, filePreview := None,
            isSubmitting := False\<rparr>)"

text \<open>
  A submission that nothing interrupts: the stretches run back to back, each gateway
  call answered by the service as it is then. It returns the calls made, the cells
  after the last stretch and the service after the last call.
\<close>

definition handleSubmit ::
  "('w, 't) Env \<Rightarrow> 't Home \<Rightarrow> 'w \<Rightarrow> call list \<times> 't Home \<times> 'w"
where
  "handleSubmit env s w =
     (case handleSubmit_enter (Date_now env) s of
        (s1, None) \<Rightarrow> ([], s1, w)
      | (s1, Some (AwaitCreate msg imageUrl)) \<Rightarrow>
          (case createPost (insert_posts env) msg imageUrl w of
             (r, w1) \<Rightarrow> ([CreatePost msg imageUrl], handleSubmit_created r s1, w1))
      | (s1, Some (AwaitUpload msg file fileName)) \<Rightarrow>
          (case uploadImage (storage_upload env) (getPublicUrl env) file fileName w of
             (r, w1) \<Rightarrow>
               (case handleSubmit_uploaded r s1 of
                  (s2, None) \<Rightarrow> ([UploadImage file fileName], s2, w1)
                | (s2, Some imageUrl) \<Rightarrow>
                    (case createPost (insert_posts env) msg (Some imageUrl) w1 of
                       (r', w2) \<Rightarrow>
                         ([UploadImage file fileName, CreatePost msg (Some imageUrl)],
                          handleSubmit_created r' s2, w2)))))"

text \<open>The \<open>onChange\<close> of the text area: a non-empty error string is cleared.\<close>

definition onChange :: "jsstring \<Rightarrow> 't Home \<Rightarrow> 't Home" where
  "onChange v s =
     (let s1 = s\<lparr>message := v\<rparr>
      in case error s of
           None \<Rightarrow> s1
         | Some m \<Rightarrow> if m = [] then s1 else s1\<lparr>error := None\<rparr>)"

text \<open>The \<open>onClick\<close> of the button over the preview.\<close>

definition onClick :: "'t Home \<Rightarrow> 't Home" where
  "onClick s = s\<lparr>filePreview := None, selectedFile := None\<rparr>"

text \<open>The \<open>disabled\<close> attribute of the submit button.\<close>

definition disabled :: "'t Home \<Rightarrow> bool" where
  "disabled s =
     (isSubmitting s \<or> (trim (message s) = [] \<and> selectedFile s = None) \<or>
      MAX_CHARACTERS < length (message s))"

text \<open>
  The effect run when the component mounts (its dependency list is empty): the list
  query is issued once and its reply handed to \<open>fetchInitialPosts\<close>. The subscription
  it opens is \<open>postsSubscription\<close> above.
\<close>

definition useEffect_mount ::
  "('w \<Rightarrow> 't Post list reply \<times> 'w) \<Rightarrow> 't Home \<Rightarrow> 'w \<Rightarrow> call list \<times> 't Home \<times> 'w"
where
  "useEffect_mount select_posts s w =
     (case select_posts w of (r, w') \<Rightarrow> ([SelectPosts], fetchInitialPosts r s, w'))"

section \<open>The component among its events\<close>

text \<open>
  Everything runs on one event loop: a handler, or a stretch of \<open>handleSubmit\<close>, runs to
  its end before the next event is taken, and between two stretches of a submission any
  other event may come. The component is its cells together with the submissions that
  are suspended.
\<close>

record 't App =
  cells :: "'t Home"
  inflight :: "task list"

text \<open>
  The events: the list query settles; the subscription notifies an insert; the user
  types, chooses files (the reader's result comes with the choice), removes the
  preview, or clicks the submit button; a script dispatches a submit event on the form;
  a pending gateway call of the suspended submission at a given position settles.
  The text area, the file input and the two buttons carry \<open>disabled={isSubmitting}\<close>
  (the submit button: \<open>disabled\<close> above), and the button over the preview is rendered
  only when there is a preview; a disabled or absent control dispatches no event.
\<close>

datatype 't event =
    FetchSettled "'t Post list reply"
  | Notified "'t Post"
  | Typed jsstring
  | FilesChosen "File list" "jsstring option"
  | RemoveClicked
  | ShareClicked nat
  | SubmitDispatched nat
  | UploadSettled nat "(jsstring + UploadResult) outcome"
  | CreateSettled nat "(jsstring + 't Post list option) outcome"

definition submit :: "nat \<Rightarrow> 't App \<Rightarrow> call list \<times> 't App" where
  "submit now a =
     (case handleSubmit_enter now (cells a) of
        (s1, None) \<Rightarrow> ([], a\<lparr>cells := s1\<rparr>)
      | (s1, Some t) \<Rightarrow> ([awaited t], \<lparr>cells = s1, inflight = inflight a @ [t]\<rparr>))"

fun react :: "'t event \<Rightarrow> 't App \<Rightarrow> call list \<times> 't App" where
  "react (FetchSettled r) a = ([], a\<lparr>cells := fetchInitialPosts r (cells a)\<rparr>)"
| "react (Notified new) a = ([], a\<lparr>cells := postsSubscription new (cells a)\<rparr>)"
| "react (Typed v) a =
     ([], if isSubmitting (cells a) then a else a\<lparr>cells := onChange v (cells a)\<rparr>)"
| "react (FilesChosen files result) a =
     ([], if isSubmitting (cells a) then a
          else a\<lparr>cells := handleFileChange (\<lambda>file. result) files (cells a)\<rparr>)"
| "react RemoveClicked a =
     ([], if isSubmitting (cells a) \<or> filePreview (cells a) = None then a
          else a\<lparr>cells := onClick (cells a)\<rparr>)"
| "react (ShareClicked now) a = (if disabled (cells a) then ([], a) else submit now a)"
| "react (SubmitDispatched now) a = submit now a"
| "react (UploadSettled i r) a =
     (if i < length (inflight a)
      then (case inflight a ! i of
              AwaitUpload msg file fileName \<Rightarrow>
                (case handleSubmit_uploaded r (cells a) of
                   (s2, None) \<Rightarrow>
                     ([], \<lparr>cells = s2, inflight = take i (inflight a) @ drop (Suc i) (inflight a)\<rparr>)
                 | (s2, Some imageUrl) \<Rightarrow>
                     ([CreatePost msg (Some imageUrl)],
                      \<lparr>cells = s2, inflight = (inflight a)[i := AwaitCreate msg (Some imageUrl)]\<rparr>))
            | AwaitCreate msg imageUrl \<Rightarrow> ([], a))
      else ([], a))"
| "react (CreateSettled i r) a =
     (if i < length (inflight a)
      then (case inflight a ! i of
              AwaitUpload msg file fileName \<Rightarrow> ([], a)
            | AwaitCreate msg imageUrl \<Rightarrow>
                ([], \<lparr>cells = handleSubmit_created r (cells a),
                      inflight = take i (inflight a) @ drop (Suc i) (inflight a)\<rparr>))
      else ([], a))"

fun run :: "'t event list \<Rightarrow> 't App \<Rightarrow> call list \<times> 't App" where
  "run [] a = ([], a)"
| "run (e # es) a =
     (case react e a of (cs, a1) \<Rightarrow> (case run es a1 of (cs', a2) \<Rightarrow> (cs @ cs', a2)))"

text \<open>The events that come from a script and not from a control of the page.\<close>

fun scripted :: "'t event \<Rightarrow> bool" where
  "scripted (SubmitDispatched now) = True"
| "scripted e = False"

definition mounted :: "'t App" where
  "mounted = \<lparr>cells = initial, inflight = []\<rparr>"

text \<open>
  A draft that passes the two guards of \<open>handleSubmit\<close>; and the state of affairs the
  flag \<open>isSubmitting\<close> stands for: no submission suspended and the flag down, or one
  submission suspended, the flag up and the draft still the valid one it started from.
\<close>

definition valid_draft :: "'t Home \<Rightarrow> bool" where
  "valid_draft s =
     (\<not> (trim (message s) = [] \<and> selectedFile s = None) \<and>
      length (message s) \<le> MAX_CHARACTERS)"

definition one_at_a_time :: "'t App \<Rightarrow> bool" where
  "one_at_a_time a =
     (case inflight a of
        [] \<Rightarrow> \<not> isSubmitting (cells a)
      | [t] \<Rightarrow> isSubmitting (cells a) \<and> valid_draft (cells a)
      | t # t' # ts \<Rightarrow> False)"

section \<open>Properties of the feed\<close>

text \<open>
  Newest first: no post stands after one with a smaller \<open>created_at\<close>. One entry per
  id: the ids of the feed are pairwise distinct.
\<close>

definition newest_first :: "('t::linorder) Post list \<Rightarrow> bool" where
  "newest_first ps = sorted_wrt (\<lambda>a b. \<not> created_at a < created_at b) ps"

definition one_entry_per_id :: "'t Post list \<Rightarrow> bool" where
  "one_entry_per_id ps = distinct (map id_post ps)"

section \<open>The blob store\<close>

type_synonym blob_store = "jsstring \<rightharpoonup> File"

text \<open>
  Modelled from the spec: the object store behind \<open>supabase.storage\<close> is a service
  outside the repository. The spec gives its contract: an object-put keyed by a name
  supplied by the caller, where a conflict on an existing name is an error. The
  \<open>upsert\<close> option of the client call decides whether an existing object is replaced.
\<close>

definition blob_upload ::
  "jsstring \<Rightarrow> File \<Rightarrow> bool \<Rightarrow> blob_store \<Rightarrow> UploadData reply \<times> blob_store"
where
  "blob_upload objectName file upsert st =
     (if st objectName = None \<or> upsert
      then (Resolved (Some \<lparr>path = objectName\<rparr>) None, st(objectName \<mapsto> file))
      else (Resolved None (Some \<lparr>message_error = Some (js ''The resource already exists'')\<rparr>),
            st))"

section \<open>Sample inputs\<close>

definition post5 :: "nat Post" where
  "post5 = \<lparr>id_post = 5, message_post = js ''hello'', image_url = None, created_at = 50\<rparr>"

definition post6 :: "nat Post" where
  "post6 = \<lparr>id_post = 6, message_post = js ''again'', image_url = None, created_at = 60\<rparr>"

definition post7 :: "nat Post" where
  "post7 = \<lparr>id_post = 7, message_post = js ''late'', image_url = None, created_at = 40\<rparr>"

definition cat_png :: File where
  "cat_png = \<lparr>name = js ''cat.png'', type = js ''image/png'', bytes = [137, 80, 78, 71]\<rparr>"

definition notes_txt :: File where
  "notes_txt = \<lparr>name = js ''notes.txt'', type = js ''text/plain'', bytes = [104, 105]\<rparr>"

definition bucket_url :: "jsstring \<Rightarrow> jsstring" where
  "bucket_url objectName = js ''https://wall.example/posts/'' @ objectName"

definition store_accepts :: "jsstring \<Rightarrow> File \<Rightarrow> bool \<Rightarrow> unit \<Rightarrow> UploadData reply \<times> unit" where
  "store_accepts objectName file upsert w = (Resolved (Some \<lparr>path = objectName\<rparr>) None, w)"

definition store_refuses :: "jsstring \<Rightarrow> File \<Rightarrow> bool \<Rightarrow> unit \<Rightarrow> UploadData reply \<times> unit" where
  "store_refuses objectName file upsert w =
     (Resolved None (Some \<lparr>message_error = Some (js ''Payload too large'')\<rparr>), w)"

definition store_rejects :: "jsstring \<Rightarrow> File \<Rightarrow> bool \<Rightarrow> unit \<Rightarrow> UploadData reply \<times> unit" where
  "store_rejects objectName file upsert w = (Rejected, w)"

definition insert_accepts ::
  "jsstring \<Rightarrow> jsstring option \<Rightarrow> unit \<Rightarrow> nat Post list reply \<times> unit" where
  "insert_accepts msg imageUrl w =
     (Resolved (Some [\<lparr>id_post = 5, message_post = msg, image_url = imageUrl, created_at = 50\<rparr>])
        None, w)"

definition insert_refuses ::
  "jsstring \<Rightarrow> jsstring option \<Rightarrow> unit \<Rightarrow> nat Post list reply \<times> unit" where
  "insert_refuses msg imageUrl w =
     (Resolved None (Some \<lparr>message_error = Some (js ''connection lost'')\<rparr>), w)"

definition insert_rejects ::
  "jsstring \<Rightarrow> jsstring option \<Rightarrow> unit \<Rightarrow> nat Post list reply \<times> unit" where
  "insert_rejects msg imageUrl w = (Rejected, w)"

definition env_ok :: "(unit, nat) Env" where
  "env_ok =
     \<lparr>Date_now = 1700000000000, storage_upload = store_accepts,
      insert_posts = insert_accepts, getPublicUrl = bucket_url\<rparr>"

definition env_upload_fails :: "(unit, nat) Env" where
  "env_upload_fails =
     \<lparr>Date_now = 1700000000000, storage_upload = store_refuses,
      insert_posts = insert_accepts, getPublicUrl = bucket_url\<rparr>"

definition env_upload_rejects :: "(unit, nat) Env" where
  "env_upload_rejects =
     \<lparr>Date_now = 1700000000000, storage_upload = store_rejects,
      insert_posts = insert_accepts, getPublicUrl = bucket_url\<rparr>"

definition env_write_fails :: "(unit, nat) Env" where
  "env_write_fails =
     \<lparr>Date_now = 1700000000000, storage_upload = store_accepts,
      insert_posts = insert_refuses, getPublicUrl = bucket_url\<rparr>"

definition env_bucket :: "(blob_store, nat) Env" where
  "env_bucket =
     \<lparr>Date_now = 1700000000000, storage_upload = blob_upload,
      insert_posts = (\<lambda>msg imageUrl st. (Resolved (Some []) None, st)),
      getPublicUrl = bucket_url\<rparr>"

definition bucket_empty :: blob_store where
  "bucket_empty = Map.empty"

definition bucket_with_cat :: blob_store where
  "bucket_with_cat = [js ''1700000000000-cat.png'' \<mapsto> notes_txt]"

definition draft_hello :: "nat Home" where
  "draft_hello = initial\<lparr>message := js ''hello''\<rparr>"

definition draft_cat :: "nat Home" where
  "draft_cat =
     initial\<lparr>message := js ''hi'', selectedFile := Some cat_png,
             filePreview := Some (js ''data:image/png;base64,iVBORw=='')\<rparr>"

section \<open>Auxiliary facts\<close>

subsection \<open>The uninterrupted submission, in one piece\<close>

lemma handleSubmit_unfold:
  "handleSubmit env s w =
     (if trim (message s) = [] \<and> selectedFile s = None then ([], s, w)
      else if MAX_CHARACTERS < length (message s) then ([], s, w)
      else
        let s1 = s\<lparr>isSubmitting := True, error := None\<rparr>;
            caught = (\<lambda>cs w'. (cs,
              s1\<lparr>error := Some (js ''Failed to create post. Please try again.''),
                 isSubmitting := False\<rparr>, w'));
            create = (\<lambda>cs imageUrl w'.
              (case createPost (insert_posts env) (message s) imageUrl w' of
                 (Threw, w'') \<Rightarrow> caught (cs @ [CreatePost (message s) imageUrl]) w''
               | (Returned result, w'') \<Rightarrow>
                   (cs @ [CreatePost (message s) imageUrl],
                    s1\<lparr>message := [], selectedFile := None, filePreview := None,
                       isSubmitting := False\<rparr>, w'')))
        in case selectedFile s of
             None \<Rightarrow> create [] None w
           | Some file \<Rightarrow>
               (let fileName = toString (Date_now env) @ js ''-'' @ name file
                in case uploadImage (storage_upload env) (getPublicUrl env) file fileName w of
                     (Threw, w') \<Rightarrow> caught [UploadImage file fileName] w'
                   | (Returned (Inl e), w') \<Rightarrow>
                       ([UploadImage file fileName],
                        s1\<lparr>error := Some (js ''Failed to upload image. Please try again.''),
                           isSubmitting := False\<rparr>, w')
                   | (Returned (Inr result), w') \<Rightarrow>
                       create [UploadImage file fileName] (Some (publicURL result)) w'))"
  by (simp add: handleSubmit_def handleSubmit_enter_def handleSubmit_uploaded_def
      handleSubmit_created_def Let_def
      split: prod.splits outcome.splits sum.splits option.splits)

lemmas run_defs =
  handleSubmit_unfold createPost_def uploadImage_def handleSupabaseError_def trim_def
  isWhiteSpace_def js_def MAX_CHARACTERS_def toString.simps

subsection \<open>Trimming\<close>

lemma dropWhile_all_iff: "(\<forall>x\<in>set (dropWhile P xs). P x) \<longleftrightarrow> (\<forall>x\<in>set xs. P x)"
  by (induction xs) auto

lemma trim_empty_iff: "trim s = [] \<longleftrightarrow> (\<forall>c\<in>set s. isWhiteSpace c)"
  by (simp add: trim_def dropWhile_eq_Nil_conv dropWhile_all_iff)

subsection \<open>Decimal rendering of the clock\<close>

lemma toString_not_Nil: "toString n \<noteq> []"
  by (subst toString.simps) simp

lemma unat_digit: "k < 65536 \<Longrightarrow> unat (of_nat k :: 16 word) = k"
  by (simp add: unat_of_nat)

lemma digit_word_inj:
  assumes "a < 10" "b < 10" "(of_nat (48 + a) :: 16 word) = of_nat (48 + b)"
  shows "a = b"
proof -
  have A: "unat (of_nat (48 + a) :: 16 word) = 48 + a"
    using assms(1) by (intro unat_digit) simp
  have B: "unat (of_nat (48 + b) :: 16 word) = 48 + b"
    using assms(2) by (intro unat_digit) simp
  have "48 + a = unat (of_nat (48 + a) :: 16 word)" by (rule A [symmetric])
  also have "\<dots> = unat (of_nat (48 + b) :: 16 word)" by (rule arg_cong [OF assms(3)])
  also have "\<dots> = 48 + b" by (rule B)
  finally show ?thesis by simp
qed

lemma digit_not_dash:
  assumes "a < 10"
  shows "(of_nat (48 + a) :: 16 word) \<noteq> 45"
proof
  assume eq: "(of_nat (48 + a) :: 16 word) = 45"
  have A: "unat (of_nat (48 + a) :: 16 word) = 48 + a"
    using assms by (intro unat_digit) simp
  have "48 + a = unat (of_nat (48 + a) :: 16 word)" by (rule A [symmetric])
  also have "\<dots> = unat (45 :: 16 word)" by (rule arg_cong [OF eq])
  also have "\<dots> = 45" by simp
  finally show False by simp
qed

lemma toString_inj: "toString n = toString m \<Longrightarrow> n = m"
proof (induction n arbitrary: m rule: toString.induct)
  case (1 n)
  show ?case
  proof (cases "n < 10")
    case True
    then have n: "toString n = [of_nat (48 + n)]" by (subst toString.simps) simp
    show ?thesis
    proof (cases "m < 10")
      case True
      then have "toString m = [of_nat (48 + m)]" by (subst toString.simps) simp
      with n "1.prems" have "(of_nat (48 + n) :: 16 word) = of_nat (48 + m)" by simp
      with \<open>n < 10\<close> True show ?thesis by (rule digit_word_inj)
    next
      case False
      then have "toString m = toString (m div 10) @ [of_nat (48 + m mod 10)]"
        by (subst toString.simps) simp
      with n "1.prems" toString_not_Nil [of "m div 10"] show ?thesis
        by (cases "toString (m div 10)") auto
    qed
  next
    case False
    then have n: "toString n = toString (n div 10) @ [of_nat (48 + n mod 10)]"
      by (subst toString.simps) simp
    show ?thesis
    proof (cases "m < 10")
      case True
      then have "toString m = [of_nat (48 + m)]" by (subst toString.simps) simp
      with n "1.prems" toString_not_Nil [of "n div 10"] show ?thesis
        by (cases "toString (n div 10)") auto
    next
      case m: False
      then have "toString m = toString (m div 10) @ [of_nat (48 + m mod 10)]"
        by (subst toString.simps) simp
      with n "1.prems" have eq: "toString (n div 10) = toString (m div 10)"
        and d: "(of_nat (48 + n mod 10) :: 16 word) = of_nat (48 + m mod 10)" by simp_all
      from "1.IH" [OF False eq] have "n div 10 = m div 10" .
      moreover have "n mod 10 = m mod 10" by (rule digit_word_inj [OF _ _ d]) simp_all
      ultimately show ?thesis by (metis div_mult_mod_eq)
    qed
  qed
qed

lemma toString_digits: "c \<in> set (toString n) \<Longrightarrow> c \<noteq> 45"
proof (induction n rule: toString.induct)
  case (1 n)
  show ?case
  proof (cases "n < 10")
    case True
    then have "toString n = [of_nat (48 + n)]" by (subst toString.simps) simp
    with "1.prems" have c: "c = of_nat (48 + n)" by simp
    with digit_not_dash [OF True] show ?thesis by simp
  next
    case False
    then have "toString n = toString (n div 10) @ [of_nat (48 + n mod 10)]"
      by (subst toString.simps) simp
    with "1.prems" consider "c \<in> set (toString (n div 10))" | "c = of_nat (48 + n mod 10)"
      by auto
    then show ?thesis
    proof cases
      case 1
      with "1.IH" [OF False] show ?thesis by simp
    next
      case 2
      have "(of_nat (48 + n mod 10) :: 16 word) \<noteq> 45"
        by (rule digit_not_dash) simp
      with 2 show ?thesis by simp
    qed
  qed
qed

lemma split_at_dash:
  assumes "xs @ 45 # ys = xs' @ 45 # ys'" "(45::16 word) \<notin> set xs" "45 \<notin> set xs'"
  shows "xs = xs'"
proof -
  have "takeWhile (\<lambda>c. c \<noteq> 45) (xs @ 45 # ys) = xs"
    using assms(2) by (subst takeWhile_append2) auto
  moreover have "takeWhile (\<lambda>c. c \<noteq> 45) (xs' @ 45 # ys') = xs'"
    using assms(3) by (subst takeWhile_append2) auto
  ultimately show ?thesis using assms(1) by simp
qed

lemma fileName_inj:
  assumes "toString t1 @ js ''-'' @ n1 = toString t2 @ js ''-'' @ n2"
  shows "t1 = t2 \<and> n1 = n2"
proof -
  from assms have b: "toString t1 @ 45 # n1 = toString t2 @ 45 # n2" by (simp add: js_def)
  have "toString t1 = toString t2"
    using split_at_dash [OF b] toString_digits by blast
  with b show ?thesis by (auto dest: toString_inj)
qed

subsection \<open>The gateway on a resolved and on a rejected call\<close>

lemma handleSupabaseError_nonempty: "handleSupabaseError e \<noteq> []"
  by (simp add: handleSupabaseError_def js_def split: option.splits)

lemma fetchPosts_resolved:
  "sel w = (Resolved d err, w') \<Longrightarrow>
   fetchPosts sel w =
     (Returned (case err of Some e \<Rightarrow> Inl (handleSupabaseError e) | None \<Rightarrow> Inr d), w')"
  by (simp add: fetchPosts_def split: option.splits)

lemma createPost_resolved:
  "ins m u w = (Resolved d err, w') \<Longrightarrow>
   createPost ins m u w =
     (Returned (case err of Some e \<Rightarrow> Inl (handleSupabaseError e) | None \<Rightarrow> Inr d), w')"
  by (simp add: createPost_def split: option.splits)

lemma uploadImage_resolved_error:
  "up n f False w = (Resolved d (Some e), w') \<Longrightarrow>
   uploadImage up url f n w = (Returned (Inl (handleSupabaseError e)), w')"
  by (simp add: uploadImage_def)

lemma uploadImage_resolved_data:
  "up n f False w = (Resolved (Some x) None, w') \<Longrightarrow>
   uploadImage up url f n w = (Returned (Inr \<lparr>path = path x, publicURL = url n\<rparr>), w')"
  by (simp add: uploadImage_def)

lemma uploadImage_resolved_neither:
  "up n f False w = (Resolved None None, w') \<Longrightarrow> uploadImage up url f n w = (Threw, w')"
  by (simp add: uploadImage_def)

lemma fetchPosts_rejected: "sel w = (Rejected, w') \<Longrightarrow> fetchPosts sel w = (Threw, w')"
  by (simp add: fetchPosts_def)

lemma createPost_rejected: "ins m u w = (Rejected, w') \<Longrightarrow> createPost ins m u w = (Threw, w')"
  by (simp add: createPost_def)

lemma uploadImage_rejected:
  "up n f False w = (Rejected, w') \<Longrightarrow> uploadImage up url f n w = (Threw, w')"
  by (simp add: uploadImage_def)

subsection \<open>What the handlers leave alone\<close>

lemma posts_fold_postsSubscription:
  "posts (fold postsSubscription ps s) = rev ps @ posts s"
  by (induction ps arbitrary: s) (simp_all add: postsSubscription_def)

lemma handleSubmit_posts: "posts (fst (snd (handleSubmit env s w))) = posts s"
  by (simp add: handleSubmit_unfold Let_def
      split: prod.splits outcome.splits sum.splits option.splits)

lemma fetchInitialPosts_data:
  "fetchInitialPosts (Resolved (Some d) None) s = s\<lparr>posts := d\<rparr>"
  by (simp add: fetchInitialPosts_def)

lemma fetchInitialPosts_error:
  "fetchInitialPosts (Resolved None (Some e)) s =
     s\<lparr>error := Some (js ''Failed to load posts. Please refresh the page.'')\<rparr>"
  by (simp add: fetchInitialPosts_def)

lemma fetchInitialPosts_rejected: "fetchInitialPosts Rejected s = s"
  by (simp add: fetchInitialPosts_def)

lemma newest_first_fetch:
  "newest_first (posts (fetchInitialPosts (Resolved (Some d) err) s)) = newest_first d"
  by (simp add: fetchInitialPosts_def Let_def split: option.splits)

lemma newest_first_insert:
  "newest_first (posts (postsSubscription p s)) \<longleftrightarrow>
     newest_first (posts s) \<and> (\<forall>q\<in>set (posts s). created_at q \<le> created_at p)"
  by (auto simp add: postsSubscription_def newest_first_def)

lemma error_postsSubscription: "error (postsSubscription p s) = error s"
  by (simp add: postsSubscription_def)

lemma error_handleFileChange: "error (handleFileChange rd fl s) = error s"
  by (simp add: handleFileChange_def Let_def split: list.splits option.splits)

lemma error_onClick: "error (onClick s) = error s"
  by (simp add: onClick_def)

lemma error_onChange: "m \<noteq> [] \<Longrightarrow> error (onChange v (s\<lparr>error := Some m\<rparr>)) = None"
  by (simp add: onChange_def)

lemma load_message_nonempty: "js ''Failed to load posts. Please refresh the page.'' \<noteq> []"
  by (simp add: js_def)

lemma handleSubmit_upload_call:
  assumes "selectedFile s = Some f" "length (message s) \<le> 280"
  shows "fst (handleSubmit env s w) =
           [UploadImage f (toString (Date_now env) @ js ''-'' @ name f)] \<or>
         fst (handleSubmit env s w) =
           [UploadImage f (toString (Date_now env) @ js ''-'' @ name f),
            CreatePost (message s)
              (Some (getPublicUrl env (toString (Date_now env) @ js ''-'' @ name f)))]"
  using assms
  by (auto simp add: handleSubmit_unfold Let_def MAX_CHARACTERS_def uploadImage_def
      split: prod.splits outcome.splits sum.splits option.splits reply.splits)

lemma blob_upload_conflict:
  "st n \<noteq> None \<Longrightarrow>
   uploadImage blob_upload url f n st =
     (Returned (Inl (js ''The resource already exists'')), st)"
  by (auto simp add: uploadImage_def blob_upload_def handleSupabaseError_def js_def)

lemma blob_upload_fresh:
  "st n = None \<Longrightarrow>
   uploadImage blob_upload url f n st =
     (Returned (Inr \<lparr>path = n, publicURL = url n\<rparr>), st(n \<mapsto> f))"
  by (simp add: uploadImage_def blob_upload_def)

subsection \<open>One submission at a time\<close>

lemma one_at_a_time_mounted: "one_at_a_time mounted"
  by (simp add: one_at_a_time_def mounted_def initial_def)

lemma one_at_a_time_flag:
  "one_at_a_time a \<Longrightarrow>
   length (inflight a) \<le> 1 \<and> (isSubmitting (cells a) \<longleftrightarrow> inflight a \<noteq> [])"
  by (auto simp add: one_at_a_time_def split: list.splits)

lemma valid_draft_frame:
  "message s' = message s \<Longrightarrow> selectedFile s' = selectedFile s \<Longrightarrow>
   valid_draft s' = valid_draft s"
  by (simp add: valid_draft_def)

lemma submit_valid:
  "valid_draft (cells a) \<Longrightarrow>
   submit now a =
     ([awaited (case selectedFile (cells a) of
                  None \<Rightarrow> AwaitCreate (message (cells a)) None
                | Some file \<Rightarrow>
                    AwaitUpload (message (cells a)) file (toString now @ js ''-'' @ name file))],
      \<lparr>cells = (cells a)\<lparr>isSubmitting := True, error := None\<rparr>,
       inflight = inflight a @
         [case selectedFile (cells a) of
            None \<Rightarrow> AwaitCreate (message (cells a)) None
          | Some file \<Rightarrow>
              AwaitUpload (message (cells a)) file (toString now @ js ''-'' @ name file)]\<rparr>)"
  by (auto simp add: submit_def handleSubmit_enter_def valid_draft_def)

lemma click_in_flight:
  "isSubmitting (cells a) \<Longrightarrow> disabled (cells a) \<and> react (ShareClicked now) a = ([], a)"
  by (simp add: disabled_def)

lemma click_keeps_one_at_a_time:
  assumes "one_at_a_time a"
  shows "one_at_a_time (snd (react (ShareClicked now) a))"
proof (cases "disabled (cells a)")
  case True
  with assms show ?thesis by simp
next
  case False
  then have idle: "\<not> isSubmitting (cells a)" and ok: "valid_draft (cells a)"
    by (auto simp add: disabled_def valid_draft_def)
  from idle assms have none: "inflight a = []"
    by (auto dest: one_at_a_time_flag)
  from False ok none show ?thesis
    by (simp add: submit_valid one_at_a_time_def valid_draft_def)
qed

lemma upload_settled_keeps_one_at_a_time:
  assumes "one_at_a_time a"
  shows "one_at_a_time (snd (react (UploadSettled i r) a))"
proof (cases "inflight a")
  case Nil
  with assms show ?thesis by simp
next
  case (Cons t ts)
  with assms have one: "inflight a = [t]" and up: "isSubmitting (cells a)"
    and ok: "valid_draft (cells a)"
    by (auto simp add: one_at_a_time_def split: list.splits)
  show ?thesis
  proof (cases i)
    case 0
    with one up ok show ?thesis
      by (auto simp add: one_at_a_time_def handleSubmit_uploaded_def valid_draft_def
          split: task.splits outcome.splits sum.splits)
  next
    case (Suc j)
    with one assms show ?thesis by simp
  qed
qed

lemma create_settled_keeps_one_at_a_time:
  assumes "one_at_a_time a"
  shows "one_at_a_time (snd (react (CreateSettled i r) a))"
proof (cases "inflight a")
  case Nil
  with assms show ?thesis by simp
next
  case (Cons t ts)
  with assms have one: "inflight a = [t]"
    by (auto simp add: one_at_a_time_def split: list.splits)
  show ?thesis
  proof (cases i)
    case 0
    with one assms show ?thesis
      by (auto simp add: one_at_a_time_def handleSubmit_created_def
          split: task.splits outcome.splits)
  next
    case (Suc j)
    with one assms show ?thesis by simp
  qed
qed

lemma quiet_keeps_one_at_a_time:
  assumes "one_at_a_time a" "inflight a' = inflight a"
    and "isSubmitting (cells a') = isSubmitting (cells a)"
    and "message (cells a') = message (cells a)"
    and "selectedFile (cells a') = selectedFile (cells a)"
  shows "one_at_a_time a'"
  using assms by (simp add: one_at_a_time_def valid_draft_def split: list.splits)

lemma idle_keeps_one_at_a_time:
  assumes "one_at_a_time a" "\<not> isSubmitting (cells a)" "inflight a' = inflight a"
    and "\<not> isSubmitting (cells a')"
  shows "one_at_a_time a'"
  using assms by (auto simp add: one_at_a_time_def split: list.splits)

lemma react_keeps_one_at_a_time:
  assumes "\<not> scripted e" "one_at_a_time a"
  shows "one_at_a_time (snd (react e a))"
proof (cases e)
  case (FetchSettled r)
  have "one_at_a_time (a\<lparr>cells := fetchInitialPosts r (cells a)\<rparr>)"
    by (rule quiet_keeps_one_at_a_time [OF assms(2)])
      (simp_all add: fetchInitialPosts_def Let_def split: reply.splits option.splits)
  with FetchSettled show ?thesis by simp
next
  case (Notified p)
  have "one_at_a_time (a\<lparr>cells := postsSubscription p (cells a)\<rparr>)"
    by (rule quiet_keeps_one_at_a_time [OF assms(2)]) (simp_all add: postsSubscription_def)
  with Notified show ?thesis by simp
next
  case (Typed v)
  show ?thesis
  proof (cases "isSubmitting (cells a)")
    case True
    with Typed assms(2) show ?thesis by simp
  next
    case False
    have "one_at_a_time (a\<lparr>cells := onChange v (cells a)\<rparr>)"
      by (rule idle_keeps_one_at_a_time [OF assms(2) False])
        (simp_all add: onChange_def Let_def False split: option.splits)
    with Typed False show ?thesis by simp
  qed
next
  case (FilesChosen files result)
  show ?thesis
  proof (cases "isSubmitting (cells a)")
    case True
    with FilesChosen assms(2) show ?thesis by simp
  next
    case False
    have "one_at_a_time (a\<lparr>cells := handleFileChange (\<lambda>file. result) files (cells a)\<rparr>)"
      by (rule idle_keeps_one_at_a_time [OF assms(2) False])
        (simp_all add: handleFileChange_def Let_def False split: list.splits option.splits)
    with FilesChosen False show ?thesis by simp
  qed
next
  case RemoveClicked
  show ?thesis
  proof (cases "isSubmitting (cells a) \<or> filePreview (cells a) = None")
    case True
    with RemoveClicked assms(2) show ?thesis by auto
  next
    case False
    then have idle: "\<not> isSubmitting (cells a)" by simp
    have "one_at_a_time (a\<lparr>cells := onClick (cells a)\<rparr>)"
      by (rule idle_keeps_one_at_a_time [OF assms(2) idle]) (simp_all add: onClick_def idle)
    with RemoveClicked False show ?thesis by auto
  qed
next
  case (ShareClicked now)
  with click_keeps_one_at_a_time [OF assms(2)] show ?thesis by simp
next
  case (SubmitDispatched now)
  with assms(1) show ?thesis by simp
next
  case (UploadSettled i r)
  with upload_settled_keeps_one_at_a_time [OF assms(2)] show ?thesis by simp
next
  case (CreateSettled i r)
  with create_settled_keeps_one_at_a_time [OF assms(2)] show ?thesis by simp
qed

lemma snd_run_Cons: "snd (run (e # es) a) = snd (run es (snd (react e a)))"
  by (simp split: prod.splits)

lemma fst_run_Cons: "fst (run (e # es) a) = fst (react e a) @ fst (run es (snd (react e a)))"
  by (simp split: prod.splits)

lemma run_keeps_one_at_a_time:
  "\<forall>e\<in>set es. \<not> scripted e \<Longrightarrow> one_at_a_time a \<Longrightarrow> one_at_a_time (snd (run es a))"
proof (induction es arbitrary: a)
  case Nil
  then show ?case by simp
next
  case (Cons e es)
  from Cons.prems have "one_at_a_time (snd (react e a))"
    by (simp add: react_keeps_one_at_a_time)
  with Cons.prems Cons.IH [of "snd (react e a)"] show ?case
    by (simp only: snd_run_Cons) simp
qed

lemma upload_failure_settles:
  assumes "one_at_a_time a" "inflight a = [AwaitUpload msg file fileName]"
    and "r = Threw \<or> r = Returned (Inl x)"
  shows "react (UploadSettled 0 r) a =
           ([], \<lparr>cells = (cells a)\<lparr>error := Some (if r = Threw
                    then js ''Failed to create post. Please try again.''
                    else js ''Failed to upload image. Please try again.''),
                  isSubmitting := False\<rparr>, inflight = []\<rparr>) \<and>
         \<not> disabled ((cells a)\<lparr>error := Some (if r = Threw
                    then js ''Failed to create post. Please try again.''
                    else js ''Failed to upload image. Please try again.''),
                  isSubmitting := False\<rparr>)"
  using assms
  by (auto simp add: one_at_a_time_def handleSubmit_uploaded_def valid_draft_def disabled_def
      MAX_CHARACTERS_def)

lemma create_throw_settles:
  assumes "one_at_a_time a" "inflight a = [AwaitCreate msg imageUrl]"
  shows "react (CreateSettled 0 Threw) a =
           ([], \<lparr>cells = (cells a)\<lparr>error := Some (js ''Failed to create post. Please try again.''),
                  isSubmitting := False\<rparr>, inflight = []\<rparr>) \<and>
         \<not> disabled ((cells a)\<lparr>error := Some (js ''Failed to create post. Please try again.''),
                  isSubmitting := False\<rparr>)"
  using assms
  by (auto simp add: one_at_a_time_def handleSubmit_created_def valid_draft_def disabled_def
      MAX_CHARACTERS_def)

section \<open>Live inserts and the feed\<close>

text \<open>
  Claim C1 as stated: a notified post is prepended only if no entry of the feed has its
  id, so the feed never holds two entries with one id. The callback has no such test:
  with post 5 in the feed, a notification of post 5 puts a second entry in front of it.
\<close>

theorem insert_duplicates_known_id:
  "posts (postsSubscription post5 (initial\<lparr>posts := [post5]\<rparr>)) = [post5, post5] \<and>
   \<not> one_entry_per_id (posts (postsSubscription post5 (initial\<lparr>posts := [post5]\<rparr>)))"
  by (simp add: postsSubscription_def one_entry_per_id_def initial_def)

text \<open>
  Claim C1, amended: every notified post is prepended, whatever its id. After the
  notifications \<open>ps\<close> (in order of delivery) the feed is \<open>rev ps\<close> in front of the old feed;
  it holds one entry per id exactly when the old feed did, the notified ids are pairwise
  distinct, and none of them was in the old feed. A submission never writes to the
  feed, so the only entry for the client's own post is the one its notification
  brings.
\<close>

theorem inserts_prepend_unconditionally:
  "posts (fold postsSubscription ps s) = rev ps @ posts s \<and>
   (one_entry_per_id (posts (fold postsSubscription ps s)) \<longleftrightarrow>
      one_entry_per_id ps \<and> one_entry_per_id (posts s) \<and>
      id_post ` set ps \<inter> id_post ` set (posts s) = {}) \<and>
   posts (fst (snd (handleSubmit env s w))) = posts s"
  by (simp add: posts_fold_postsSubscription handleSubmit_posts one_entry_per_id_def
      rev_map [symmetric])

theorem inserts_prepend_unconditionally_witness:
  "posts (fold postsSubscription [post5, post6] (initial\<lparr>posts := [post7]\<rparr>)) =
     [post6, post5, post7] \<and>
   one_entry_per_id (posts (fold postsSubscription [post5, post6] (initial\<lparr>posts := [post7]\<rparr>))) \<and>
   posts (fst (snd (handleSubmit env_ok draft_hello ()))) = []"
  using inserts_prepend_unconditionally [of "[post5, post6]" "initial\<lparr>posts := [post7]\<rparr>" env_ok "()"]
    inserts_prepend_unconditionally [of "[]" draft_hello env_ok "()"]
  by (simp add: one_entry_per_id_def post5_def post6_def post7_def initial_def draft_hello_def)

section \<open>Submission\<close>

text \<open>
  Claim C2 at a failing write: the draft is \<open>hello\<close> with no file, and the insert
  resolves with an error, so \<open>createPost\<close> returns \<open>{ error: "connection lost" }\<close>.
  \<open>handleSubmit\<close> does not read what \<open>createPost\<close> returns: the message is cleared and
  no error is set.
\<close>

theorem write_failure_clears_draft:
  "createPost (insert_posts env_write_fails) (js ''hello'') None () =
     (Returned (Inl (js ''connection lost'')), ()) \<and>
   handleSubmit env_write_fails draft_hello () =
     ([CreatePost (js ''hello'') None],
      draft_hello\<lparr>message := [], error := None, isSubmitting := False\<rparr>, ()) \<and>
   message (fst (snd (handleSubmit env_write_fails draft_hello ()))) = [] \<and>
   error (fst (snd (handleSubmit env_write_fails draft_hello ()))) = None"
  by (simp add: env_write_fails_def insert_refuses_def draft_hello_def initial_def run_defs)

text \<open>
  Claim C3 as stated: whenever \<open>uploadImage\<close> fails, the error is set to the upload
  error. When the upload fails by throwing, \<open>handleSubmit\<close> goes through its one \<open>catch\<close>
  block, whose message is the one for a failed post.
\<close>

theorem upload_throw_sets_create_message:
  "uploadImage (storage_upload env_upload_rejects) (getPublicUrl env_upload_rejects) cat_png
     (js ''1700000000000-cat.png'') () = (Threw, ()) \<and>
   handleSubmit env_upload_rejects draft_cat () =
     ([UploadImage cat_png (js ''1700000000000-cat.png'')],
      draft_cat\<lparr>error := Some (js ''Failed to create post. Please try again.'')\<rparr>, ()) \<and>
   error (fst (snd (handleSubmit env_upload_rejects draft_cat ()))) \<noteq>
     Some (js ''Failed to upload image. Please try again.'')"
  by (simp add: env_upload_rejects_def store_rejects_def draft_cat_def cat_png_def initial_def
      run_defs)

text \<open>
  Claim C3, amended: in a submission with a selected file, when \<open>uploadImage\<close> returns a
  failure the error is set to the upload message, and when \<open>uploadImage\<close> throws the
  error is set to the message for a failed post. Either way the upload is the only
  gateway call (\<open>createPost\<close> is not called), \<open>isSubmitting\<close> ends false, and no other cell
  is written: message, selected file and preview are as they were. The stretch that
  resumes after the upload does so on whatever the cells are by then.
\<close>

theorem upload_failure_ends_submission:
  assumes "selectedFile s = Some f" and "length (message s) \<le> 280"
  shows
    "(uploadImage (storage_upload env) (getPublicUrl env) f
        (toString (Date_now env) @ js ''-'' @ name f) w = (Returned (Inl e), w') \<longrightarrow>
      handleSubmit env s w =
        ([UploadImage f (toString (Date_now env) @ js ''-'' @ name f)],
         s\<lparr>error := Some (js ''Failed to upload image. Please try again.''),
           isSubmitting := False\<rparr>, w')) \<and>
     (uploadImage (storage_upload env) (getPublicUrl env) f
        (toString (Date_now env) @ js ''-'' @ name f) w = (Threw, w') \<longrightarrow>
      handleSubmit env s w =
        ([UploadImage f (toString (Date_now env) @ js ''-'' @ name f)],
         s\<lparr>error := Some (js ''Failed to create post. Please try again.''),
           isSubmitting := False\<rparr>, w')) \<and>
     handleSubmit_uploaded (Returned (Inl e)) s' =
       (s'\<lparr>error := Some (js ''Failed to upload image. Please try again.''),
          isSubmitting := False\<rparr>, None) \<and>
     handleSubmit_uploaded Threw s' =
       (s'\<lparr>error := Some (js ''Failed to create post. Please try again.''),
          isSubmitting := False\<rparr>, None)"
  using assms
  by (simp add: handleSubmit_unfold MAX_CHARACTERS_def handleSubmit_uploaded_def)

theorem upload_failure_ends_submission_witness:
  "handleSubmit env_upload_fails draft_cat () =
     ([UploadImage cat_png (js ''1700000000000-cat.png'')],
      draft_cat\<lparr>error := Some (js ''Failed to upload image. Please try again.'')\<rparr>, ()) \<and>
   handleSubmit env_upload_rejects draft_cat () =
     ([UploadImage cat_png (js ''1700000000000-cat.png'')],
      draft_cat\<lparr>error := Some (js ''Failed to create post. Please try again.'')\<rparr>, ()) \<and>
   handleSubmit_uploaded (Returned (Inl (js ''Payload too large'')))
     (draft_cat\<lparr>isSubmitting := True\<rparr>) =
     (draft_cat\<lparr>error := Some (js ''Failed to upload image. Please try again.'')\<rparr>, None)"
proof -
  have a: "selectedFile draft_cat = Some cat_png" by (simp add: draft_cat_def)
  have b: "length (message draft_cat) \<le> 280" by (simp add: draft_cat_def js_def)
  have c: "uploadImage (storage_upload env_upload_fails) (getPublicUrl env_upload_fails) cat_png
             (toString (Date_now env_upload_fails) @ js ''-'' @ name cat_png) () =
           (Returned (Inl (js ''Payload too large'')), ())"
    by (simp add: uploadImage_def env_upload_fails_def store_refuses_def
        handleSupabaseError_def js_def)
  have c': "uploadImage (storage_upload env_upload_rejects) (getPublicUrl env_upload_rejects)
             cat_png (toString (Date_now env_upload_rejects) @ js ''-'' @ name cat_png) () =
           (Threw, ())"
    by (simp add: uploadImage_def env_upload_rejects_def store_rejects_def)
  have d: "toString (Date_now env_upload_fails) @ js ''-'' @ name cat_png =
           js ''1700000000000-cat.png''"
    by (simp add: env_upload_fails_def cat_png_def js_def toString.simps)
  have d': "toString (Date_now env_upload_rejects) @ js ''-'' @ name cat_png =
           js ''1700000000000-cat.png''"
    by (simp add: env_upload_rejects_def cat_png_def js_def toString.simps)
  show ?thesis
    using c c' d d'
      upload_failure_ends_submission [OF a b, of env_upload_fails "()"
        "js ''Payload too large''" "()" "draft_cat\<lparr>isSubmitting := True\<rparr>"]
      upload_failure_ends_submission [OF a b, of env_upload_rejects "()"
        "js ''Payload too large''" "()" "draft_cat\<lparr>isSubmitting := True\<rparr>"]
    by (simp add: draft_cat_def initial_def)
qed

text \<open>
  Claim C4: when the message is empty or all white space and no file is selected, or
  when the message is longer than 280 code units, \<open>handleSubmit\<close> makes no gateway call
  and changes no cell.
\<close>

theorem invalid_draft_submission_noop:
  "((\<forall>c\<in>set (message s). isWhiteSpace c) \<and> selectedFile s = None) \<or>
   280 < length (message s)
   \<Longrightarrow> handleSubmit env s w = ([], s, w)"
  by (auto simp add: handleSubmit_unfold trim_empty_iff MAX_CHARACTERS_def)

theorem invalid_draft_submission_noop_witness:
  "handleSubmit env_ok (initial\<lparr>message := js ''  ''\<rparr>) () =
     ([], initial\<lparr>message := js ''  ''\<rparr>, ()) \<and>
   handleSubmit env_ok (draft_cat\<lparr>message := replicate 281 97\<rparr>) () =
     ([], draft_cat\<lparr>message := replicate 281 97\<rparr>, ())"
proof -
  have a: "((\<forall>c\<in>set (message (initial\<lparr>message := js ''  ''\<rparr> :: nat Home)). isWhiteSpace c) \<and>
            selectedFile (initial\<lparr>message := js ''  ''\<rparr> :: nat Home) = None) \<or>
           280 < length (message (initial\<lparr>message := js ''  ''\<rparr> :: nat Home))"
    by (simp add: initial_def js_def isWhiteSpace_def)
  have b: "((\<forall>c\<in>set (message (draft_cat\<lparr>message := replicate 281 97\<rparr>)). isWhiteSpace c) \<and>
            selectedFile (draft_cat\<lparr>message := replicate 281 97\<rparr>) = None) \<or>
           280 < length (message (draft_cat\<lparr>message := replicate 281 97\<rparr>))"
    by simp
  show ?thesis
    using invalid_draft_submission_noop [OF a, of env_ok "()"]
      invalid_draft_submission_noop [OF b, of env_ok "()"]
    by simp
qed

section \<open>Ordering of the feed\<close>

text \<open>
  Claim C5 as stated: after every mutation the feed is in descending \<open>created_at\<close>
  order. The insert callback prepends without comparing timestamps: a notification of
  post 7 (timestamp 40) onto a feed holding post 5 (timestamp 50) puts the older post
  first.
\<close>

theorem insert_breaks_newest_first:
  "newest_first (posts (initial\<lparr>posts := [post5]\<rparr>)) \<and>
   posts (postsSubscription post7 (initial\<lparr>posts := [post5]\<rparr>)) = [post7, post5] \<and>
   created_at post7 < created_at post5 \<and>
   \<not> newest_first (posts (postsSubscription post7 (initial\<lparr>posts := [post5]\<rparr>)))"
  by (simp add: postsSubscription_def newest_first_def post5_def post7_def initial_def)

text \<open>
  Claim C5, amended: after the startup fetch the feed is newest first exactly when the
  store's reply is (the reply is stored as it comes); after a live insert it is newest
  first exactly when it was before and no post of the feed is newer than the inserted
  one; a submission leaves the feed as it is.
\<close>

theorem newest_first_preservation:
  "newest_first (posts (fetchInitialPosts (Resolved (Some d) err) s)) = newest_first d \<and>
   (newest_first (posts (postsSubscription p s)) \<longleftrightarrow>
      newest_first (posts s) \<and> (\<forall>q\<in>set (posts s). created_at q \<le> created_at p)) \<and>
   posts (fst (snd (handleSubmit env s w))) = posts s"
  by (simp only: newest_first_fetch newest_first_insert handleSubmit_posts simp_thms)

theorem newest_first_preservation_witness:
  "newest_first (posts (fetchInitialPosts (Resolved (Some [post5, post7]) None) initial)) \<and>
   newest_first (posts (postsSubscription post6 (initial\<lparr>posts := [post5, post7]\<rparr>))) \<and>
   posts (fst (snd (handleSubmit env_ok (draft_hello\<lparr>posts := [post5, post7]\<rparr>) ()))) =
     [post5, post7]"
  using newest_first_preservation [of "[post5, post7]" None initial post6 env_ok "()"]
    newest_first_preservation
      [of "[post5, post7]" None "initial\<lparr>posts := [post5, post7]\<rparr>" post6 env_ok "()"]
    newest_first_preservation
      [of "[post5, post7]" None "draft_hello\<lparr>posts := [post5, post7]\<rparr>" post6 env_ok "()"]
  by (simp add: newest_first_def post5_def post6_def post7_def initial_def draft_hello_def)

section \<open>Startup\<close>

text \<open>
  Claim C6 as stated: a failed startup fetch surfaces a persistent load error. The
  error message is set, but the next edit of the message clears it: \<open>onChange\<close>
  clears whatever error is shown.
\<close>

theorem load_error_cleared_by_edit:
  "error (fetchInitialPosts
            (Resolved None (Some \<lparr>message_error = Some (js ''connection lost'')\<rparr>))
            (initial :: nat Home)) =
     Some (js ''Failed to load posts. Please refresh the page.'') \<and>
   error (onChange (js ''h'')
            (fetchInitialPosts
               (Resolved None (Some \<lparr>message_error = Some (js ''connection lost'')\<rparr>))
               (initial :: nat Home))) = None"
  by (simp add: fetchInitialPosts_def onChange_def initial_def js_def)

text \<open>
  Claim C6, amended: on mount the list query is issued once. When it resolves with
  data, the feed becomes that data in place of what it held, newest first exactly when
  the reply is. When it resolves with an error, the load message is set and nothing
  else changes, so the feed of a fresh component stays empty; a rejected query changes
  nothing. The load message is not persistent: it outlives insert notifications, file
  selections and the removal of the preview, and the next edit of the message clears
  it.
\<close>

theorem startup_fetch:
  "useEffect_mount sel s w = ([SelectPosts], fetchInitialPosts (fst (sel w)) s, snd (sel w)) \<and>
   fetchInitialPosts (Resolved (Some d) None) s = s\<lparr>posts := d\<rparr> \<and>
   newest_first (posts (fetchInitialPosts (Resolved (Some d) None) s)) = newest_first d \<and>
   fetchInitialPosts (Resolved None (Some e)) s =
     s\<lparr>error := Some (js ''Failed to load posts. Please refresh the page.'')\<rparr> \<and>
   posts (fetchInitialPosts (Resolved None (Some e)) initial) = [] \<and>
   fetchInitialPosts Rejected s = s \<and>
   error (postsSubscription p s) = error s \<and>
   error (handleFileChange rd fl s) = error s \<and>
   error (onClick s) = error s \<and>
   error (onChange v (s\<lparr>error := Some (js ''Failed to load posts. Please refresh the page.'')\<rparr>)) =
     None"
proof -
  have "useEffect_mount sel s w = ([SelectPosts], fetchInitialPosts (fst (sel w)) s, snd (sel w))"
    by (simp add: useEffect_mount_def split: prod.splits)
  moreover have "posts (fetchInitialPosts (Resolved None (Some e)) initial) = []"
    by (simp add: fetchInitialPosts_error) (simp add: initial_def)
  moreover have
    "error (onChange v (s\<lparr>error := Some (js ''Failed to load posts. Please refresh the page.'')\<rparr>)) =
       None"
    by (rule error_onChange [OF load_message_nonempty])
  ultimately show ?thesis
    by (simp add: fetchInitialPosts_data fetchInitialPosts_error fetchInitialPosts_rejected
        newest_first_fetch error_postsSubscription error_handleFileChange error_onClick)
qed

theorem startup_fetch_witness:
  "useEffect_mount (\<lambda>w. (Resolved (Some [post6, post5]) None, w)) (draft_cat\<lparr>posts := [post7]\<rparr>) () =
     ([SelectPosts], draft_cat\<lparr>posts := [post6, post5]\<rparr>, ()) \<and>
   newest_first (posts (fetchInitialPosts (Resolved (Some [post6, post5]) None)
     (draft_cat\<lparr>posts := [post7]\<rparr>))) \<and>
   error (fetchInitialPosts (Resolved None (Some \<lparr>message_error = None\<rparr>))
     (draft_cat\<lparr>posts := [post7]\<rparr>)) =
     Some (js ''Failed to load posts. Please refresh the page.'')"
proof -
  have sorted: "newest_first [post6, post5]"
    by (simp add: newest_first_def post5_def post6_def)
  show ?thesis
    using sorted
      startup_fetch [of "\<lambda>w. (Resolved (Some [post6, post5]) None, w)"
        "draft_cat\<lparr>posts := [post7]\<rparr>" "()" "[post6, post5]" "\<lparr>message_error = None\<rparr>"
        post5 "\<lambda>f. None" "[]" "js ''h''"]
    by auto
qed

section \<open>The gateway boundary\<close>

text \<open>
  Claim C7 as stated: no gateway operation throws past the gateway, and every failure
  leaves the controller in a retryable state. The gateway has no handler: when the
  client call behind \<open>createPost\<close> rejects, \<open>createPost\<close> throws. And when \<open>createPost\<close>
  returns a failure, the submission ends with the draft cleared and no error shown, the
  submit button disabled on the empty draft.
\<close>

theorem createPost_rethrows_rejection:
  "createPost insert_rejects (js ''hello'') None () = (Threw, ()) \<and>
   createPost insert_refuses (js ''hello'') None () =
     (Returned (Inl (js ''connection lost'')), ()) \<and>
   message (fst (snd (handleSubmit env_write_fails draft_hello ()))) = [] \<and>
   error (fst (snd (handleSubmit env_write_fails draft_hello ()))) = None \<and>
   disabled (fst (snd (handleSubmit env_write_fails draft_hello ())))"
  by (simp add: env_write_fails_def insert_refuses_def insert_rejects_def draft_hello_def
      initial_def disabled_def run_defs)

text \<open>
  Claim C7, amended. The gateway: whenever the client call resolves, \<open>fetchPosts\<close> and
  \<open>createPost\<close> return the data, or a failure with a non-empty message when the reply
  carries an error; \<open>uploadImage\<close> does so when the reply carries an error or data. A
  rejected client call is thrown on to the caller, and so is a reply to \<open>uploadImage\<close>
  with neither data nor error. The controller: a failed list query sets the load
  message and changes nothing else. With submissions started from the submit button,
  there is one submission at a time, and when its upload returns a failure or throws, or
  its \<open>createPost\<close> throws, no further gateway call is made, no submission is left in
  flight, \<open>isSubmitting\<close> is false, the error is set, no other cell is written, and the
  submit button is enabled. (A \<open>createPost\<close> that returns a failure is not among these.)
\<close>

theorem gateway_results_and_recovery:
  "(sel w = (Resolved d err, w') \<longrightarrow>
      fetchPosts sel w =
        (Returned (case err of Some e \<Rightarrow> Inl (handleSupabaseError e) | None \<Rightarrow> Inr d), w')) \<and>
   (ins m u w = (Resolved d err, w') \<longrightarrow>
      createPost ins m u w =
        (Returned (case err of Some e \<Rightarrow> Inl (handleSupabaseError e) | None \<Rightarrow> Inr d), w')) \<and>
   (up n f False w = (Resolved dd (Some e), w') \<longrightarrow>
      uploadImage up url f n w = (Returned (Inl (handleSupabaseError e)), w')) \<and>
   (up n f False w = (Resolved (Some x) None, w') \<longrightarrow>
      uploadImage up url f n w = (Returned (Inr \<lparr>path = path x, publicURL = url n\<rparr>), w')) \<and>
   handleSupabaseError e \<noteq> [] \<and>
   (sel w = (Rejected, w') \<longrightarrow> fetchPosts sel w = (Threw, w')) \<and>
   (ins m u w = (Rejected, w') \<longrightarrow> createPost ins m u w = (Threw, w')) \<and>
   (up n f False w = (Rejected, w') \<longrightarrow> uploadImage up url f n w = (Threw, w')) \<and>
   (up n f False w = (Resolved None None, w') \<longrightarrow> uploadImage up url f n w = (Threw, w')) \<and>
   fetchInitialPosts (Resolved None (Some e)) s =
     s\<lparr>error := Some (js ''Failed to load posts. Please refresh the page.'')\<rparr> \<and>
   ((\<forall>ev\<in>set es. \<not> scripted ev) \<longrightarrow> one_at_a_time (snd (run es mounted))) \<and>
   (one_at_a_time a \<and> inflight a = [AwaitUpload msg picked fileName] \<longrightarrow>
      react (UploadSettled 0 (Returned (Inl y))) a =
        ([], \<lparr>cells = (cells a)\<lparr>error := Some (js ''Failed to upload image. Please try again.''),
               isSubmitting := False\<rparr>, inflight = []\<rparr>) \<and>
      \<not> disabled ((cells a)\<lparr>error := Some (js ''Failed to upload image. Please try again.''),
               isSubmitting := False\<rparr>) \<and>
      react (UploadSettled 0 Threw) a =
        ([], \<lparr>cells = (cells a)\<lparr>error := Some (js ''Failed to create post. Please try again.''),
               isSubmitting := False\<rparr>, inflight = []\<rparr>) \<and>
      \<not> disabled ((cells a)\<lparr>error := Some (js ''Failed to create post. Please try again.''),
               isSubmitting := False\<rparr>)) \<and>
   (one_at_a_time a \<and> inflight a = [AwaitCreate msg imageUrl] \<longrightarrow>
      react (CreateSettled 0 Threw) a =
        ([], \<lparr>cells = (cells a)\<lparr>error := Some (js ''Failed to create post. Please try again.''),
               isSubmitting := False\<rparr>, inflight = []\<rparr>) \<and>
      \<not> disabled ((cells a)\<lparr>error := Some (js ''Failed to create post. Please try again.''),
               isSubmitting := False\<rparr>))"
proof -
  have gateway:
    "(sel w = (Resolved d err, w') \<longrightarrow>
        fetchPosts sel w =
          (Returned (case err of Some e \<Rightarrow> Inl (handleSupabaseError e) | None \<Rightarrow> Inr d), w')) \<and>
     (ins m u w = (Resolved d err, w') \<longrightarrow>
        createPost ins m u w =
          (Returned (case err of Some e \<Rightarrow> Inl (handleSupabaseError e) | None \<Rightarrow> Inr d), w')) \<and>
     (up n f False w = (Resolved dd (Some e), w') \<longrightarrow>
        uploadImage up url f n w = (Returned (Inl (handleSupabaseError e)), w')) \<and>
     (up n f False w = (Resolved (Some x) None, w') \<longrightarrow>
        uploadImage up url f n w = (Returned (Inr \<lparr>path = path x, publicURL = url n\<rparr>), w')) \<and>
     handleSupabaseError e \<noteq> [] \<and>
     (sel w = (Rejected, w') \<longrightarrow> fetchPosts sel w = (Threw, w')) \<and>
     (ins m u w = (Rejected, w') \<longrightarrow> createPost ins m u w = (Threw, w')) \<and>
     (up n f False w = (Rejected, w') \<longrightarrow> uploadImage up url f n w = (Threw, w')) \<and>
     (up n f False w = (Resolved None None, w') \<longrightarrow> uploadImage up url f n w = (Threw, w')) \<and>
     fetchInitialPosts (Resolved None (Some e)) s =
       s\<lparr>error := Some (js ''Failed to load posts. Please refresh the page.'')\<rparr>"
    by (simp add: fetchPosts_resolved createPost_resolved uploadImage_resolved_error
        uploadImage_resolved_data uploadImage_resolved_neither handleSupabaseError_nonempty
        fetchPosts_rejected createPost_rejected uploadImage_rejected fetchInitialPosts_error)
  have clicks: "(\<forall>ev\<in>set es. \<not> scripted ev) \<longrightarrow> one_at_a_time (snd (run es mounted))"
    by (simp add: run_keeps_one_at_a_time one_at_a_time_mounted)
  have upload: "one_at_a_time a \<and> inflight a = [AwaitUpload msg picked fileName] \<longrightarrow>
      react (UploadSettled 0 (Returned (Inl y))) a =
        ([], \<lparr>cells = (cells a)\<lparr>error := Some (js ''Failed to upload image. Please try again.''),
               isSubmitting := False\<rparr>, inflight = []\<rparr>) \<and>
      \<not> disabled ((cells a)\<lparr>error := Some (js ''Failed to upload image. Please try again.''),
               isSubmitting := False\<rparr>) \<and>
      react (UploadSettled 0 Threw) a =
        ([], \<lparr>cells = (cells a)\<lparr>error := Some (js ''Failed to create post. Please try again.''),
               isSubmitting := False\<rparr>, inflight = []\<rparr>) \<and>
      \<not> disabled ((cells a)\<lparr>error := Some (js ''Failed to create post. Please try again.''),
               isSubmitting := False\<rparr>)"
    using upload_failure_settles [of a msg picked fileName "Returned (Inl y)" y]
      upload_failure_settles [of a msg picked fileName Threw y]
    by simp
  have create: "one_at_a_time a \<and> inflight a = [AwaitCreate msg imageUrl] \<longrightarrow>
      react (CreateSettled 0 Threw) a =
        ([], \<lparr>cells = (cells a)\<lparr>error := Some (js ''Failed to create post. Please try again.''),
               isSubmitting := False\<rparr>, inflight = []\<rparr>) \<and>
      \<not> disabled ((cells a)\<lparr>error := Some (js ''Failed to create post. Please try again.''),
               isSubmitting := False\<rparr>)"
    using create_throw_settles [of a msg imageUrl] by simp
  from gateway clicks upload create show ?thesis by blast
qed

theorem gateway_results_and_recovery_witness:
  "createPost insert_refuses (js ''hello'') None () =
     (Returned (Inl (js ''connection lost'')), ()) \<and>
   uploadImage store_refuses bucket_url cat_png (js ''cat.png'') () =
     (Returned (Inl (js ''Payload too large'')), ()) \<and>
   fetchPosts (\<lambda>w. (Rejected, w)) () = (Threw :: (jsstring + nat Post list option) outcome, ()) \<and>
   snd (run [Typed (js ''hello''), ShareClicked 1700000000000] (mounted :: nat App)) =
     \<lparr>cells = initial\<lparr>message := js ''hello'', isSubmitting := True\<rparr>,
      inflight = [AwaitCreate (js ''hello'') None]\<rparr> \<and>
   react (CreateSettled 0 Threw)
     \<lparr>cells = (initial :: nat Home)\<lparr>message := js ''hello'', isSubmitting := True\<rparr>,
      inflight = [AwaitCreate (js ''hello'') None]\<rparr> =
     ([], \<lparr>cells = initial\<lparr>message := js ''hello'',
                            error := Some (js ''Failed to create post. Please try again.'')\<rparr>,
           inflight = []\<rparr>) \<and>
   \<not> disabled (initial\<lparr>message := js ''hello'',
                        error := Some (js ''Failed to create post. Please try again.'')\<rparr> :: nat Home)"
proof -
  have ins: "insert_refuses (js ''hello'') None () =
      (Resolved None (Some \<lparr>message_error = Some (js ''connection lost'')\<rparr>), ())"
    by (simp add: insert_refuses_def)
  have up: "store_refuses (js ''cat.png'') cat_png False () =
      (Resolved None (Some \<lparr>message_error = Some (js ''Payload too large'')\<rparr>), ())"
    by (simp add: store_refuses_def)
  have sel: "(\<lambda>w. (Rejected :: nat Post list reply, w)) () = (Rejected, ())"
    by simp
  have e1: "handleSupabaseError \<lparr>message_error = Some (js ''connection lost'')\<rparr> =
      js ''connection lost''"
    by (simp add: handleSupabaseError_def js_def)
  have e2: "handleSupabaseError \<lparr>message_error = Some (js ''Payload too large'')\<rparr> =
      js ''Payload too large''"
    by (simp add: handleSupabaseError_def js_def)
  have ui: "\<forall>ev\<in>set [Typed (js ''hello''), ShareClicked 1700000000000 :: nat event]. \<not> scripted ev"
    by simp
  have there: "snd (run [Typed (js ''hello''), ShareClicked 1700000000000] (mounted :: nat App)) =
      \<lparr>cells = initial\<lparr>message := js ''hello'', isSubmitting := True\<rparr>,
       inflight = [AwaitCreate (js ''hello'') None]\<rparr>"
    by (simp add: mounted_def initial_def onChange_def disabled_def submit_def
        handleSubmit_enter_def trim_def isWhiteSpace_def js_def MAX_CHARACTERS_def)
  note T = gateway_results_and_recovery
        [where ins = insert_refuses and m = "js ''hello''" and u = None and w = "()"
          and w' = "()" and d = None
          and err = "Some \<lparr>message_error = Some (js ''connection lost'')\<rparr>"
          and sel = "\<lambda>w. (Rejected, w)"
          and up = store_refuses and n = "js ''cat.png''" and f = cat_png and dd = None
          and e = "\<lparr>message_error = Some (js ''Payload too large'')\<rparr>"
          and url = bucket_url and x = "\<lparr>path = []\<rparr>"
          and s = "initial :: nat Home"
          and es = "[Typed (js ''hello''), ShareClicked 1700000000000 :: nat event]"
          and a = "\<lparr>cells = (initial :: nat Home)\<lparr>message := js ''hello'', isSubmitting := True\<rparr>,
                   inflight = [AwaitCreate (js ''hello'') None]\<rparr>"
          and msg = "js ''hello''" and imageUrl = None and picked = cat_png
          and fileName = "[]" and y = "[]"]
  from T ins e1 have g1: "createPost insert_refuses (js ''hello'') None () =
      (Returned (Inl (js ''connection lost'')), ())"
    by simp
  from T up e2 have g2: "uploadImage store_refuses bucket_url cat_png (js ''cat.png'') () =
      (Returned (Inl (js ''Payload too large'')), ())"
    by simp
  from T sel have g3: "fetchPosts (\<lambda>w. (Rejected, w)) () =
      (Threw :: (jsstring + nat Post list option) outcome, ())"
    by simp
  from T ui have "one_at_a_time
      (snd (run [Typed (js ''hello''), ShareClicked 1700000000000] (mounted :: nat App)))"
    by blast
  then have inv: "one_at_a_time
      \<lparr>cells = (initial :: nat Home)\<lparr>message := js ''hello'', isSubmitting := True\<rparr>,
       inflight = [AwaitCreate (js ''hello'') None]\<rparr>"
    by (simp only: there)
  from T inv have g4: "react (CreateSettled 0 Threw)
      \<lparr>cells = (initial :: nat Home)\<lparr>message := js ''hello'', isSubmitting := True\<rparr>,
       inflight = [AwaitCreate (js ''hello'') None]\<rparr> =
      ([], \<lparr>cells = initial\<lparr>message := js ''hello'',
                             error := Some (js ''Failed to create post. Please try again.'')\<rparr>,
            inflight = []\<rparr>) \<and>
    \<not> disabled (initial\<lparr>message := js ''hello'',
                         error := Some (js ''Failed to create post. Please try again.'')\<rparr> :: nat Home)"
    by (simp add: initial_def)
  from g1 g2 g3 there g4 show ?thesis by (intro conjI) simp_all
qed

section \<open>Object names and the upload policy\<close>

text \<open>
  Claim C8 as stated: the prefix of the object name increases from one submission to
  the next. The prefix is what the clock reads, and the code takes it as it comes: two
  submissions of a file of the same name at the same reading derive the same object
  name, and the store refuses the second upload as a conflict.
\<close>

theorem same_reading_same_name:
  "fst (handleSubmit env_bucket draft_cat bucket_empty) =
     [UploadImage cat_png (js ''1700000000000-cat.png''),
      CreatePost (js ''hi'') (Some (bucket_url (js ''1700000000000-cat.png'')))] \<and>
   fst (handleSubmit env_bucket draft_cat
          (snd (snd (handleSubmit env_bucket draft_cat bucket_empty)))) =
     [UploadImage cat_png (js ''1700000000000-cat.png'')] \<and>
   error (fst (snd (handleSubmit env_bucket draft_cat
          (snd (snd (handleSubmit env_bucket draft_cat bucket_empty)))))) =
     Some (js ''Failed to upload image. Please try again.'')"
  by (simp add: handleSubmit_unfold draft_cat_def initial_def env_bucket_def trim_def
      isWhiteSpace_def js_def MAX_CHARACTERS_def uploadImage_def createPost_def blob_upload_def
      bucket_empty_def cat_png_def toString.simps handleSupabaseError_def Let_def bucket_url_def)

text \<open>
  Claim C8, amended: \<open>uploadImage\<close> asks the store not to replace (\<open>upsert: false\<close>, whatever
  the client), so on the blob store a name that is taken gives a returned failure and
  leaves the store as it was, and a free name is stored. Every submission with a file
  uploads it as its first call, under the name made of the clock reading in decimal, a
  dash and the file's own name. Nothing makes the prefix increase: two such names are
  the same exactly when the readings and the file names are.
\<close>

theorem upload_never_overwrites:
  "(st n \<noteq> None \<longrightarrow>
      uploadImage blob_upload url file n st =
        (Returned (Inl (js ''The resource already exists'')), st)) \<and>
   (st n = None \<longrightarrow>
      uploadImage blob_upload url file n st =
        (Returned (Inr \<lparr>path = n, publicURL = url n\<rparr>), st(n \<mapsto> file))) \<and>
   (selectedFile s = Some f \<and> length (message s) \<le> 280 \<longrightarrow>
      fst (handleSubmit env s w) =
        [UploadImage f (toString (Date_now env) @ js ''-'' @ name f)] \<or>
      fst (handleSubmit env s w) =
        [UploadImage f (toString (Date_now env) @ js ''-'' @ name f),
         CreatePost (message s)
           (Some (getPublicUrl env (toString (Date_now env) @ js ''-'' @ name f)))]) \<and>
   (toString t1 @ js ''-'' @ n1 = toString t2 @ js ''-'' @ n2 \<longleftrightarrow> t1 = t2 \<and> n1 = n2) \<and>
   uploadImage up url file n v = uploadImage (\<lambda>a b upsert. up a b False) url file n v"
proof -
  have flag: "uploadImage up url file n v = uploadImage (\<lambda>a b upsert. up a b False) url file n v"
    by (simp add: uploadImage_def)
  have names: "toString t1 @ js ''-'' @ n1 = toString t2 @ js ''-'' @ n2 \<longleftrightarrow> t1 = t2 \<and> n1 = n2"
    using fileName_inj [of t1 n1 t2 n2] by blast
  have calls: "selectedFile s = Some f \<and> length (message s) \<le> 280 \<longrightarrow>
      fst (handleSubmit env s w) =
        [UploadImage f (toString (Date_now env) @ js ''-'' @ name f)] \<or>
      fst (handleSubmit env s w) =
        [UploadImage f (toString (Date_now env) @ js ''-'' @ name f),
         CreatePost (message s)
           (Some (getPublicUrl env (toString (Date_now env) @ js ''-'' @ name f)))]"
    using handleSubmit_upload_call [of s f env w] by blast
  have taken: "st n \<noteq> None \<longrightarrow>
      uploadImage blob_upload url file n st =
        (Returned (Inl (js ''The resource already exists'')), st)"
    by (simp add: blob_upload_conflict)
  have free: "st n = None \<longrightarrow>
      uploadImage blob_upload url file n st =
        (Returned (Inr \<lparr>path = n, publicURL = url n\<rparr>), st(n \<mapsto> file))"
    by (simp add: blob_upload_fresh)
  from taken free calls names flag show ?thesis by (intro conjI)
qed

theorem upload_never_overwrites_witness:
  "uploadImage blob_upload bucket_url cat_png (js ''1700000000000-cat.png'') bucket_with_cat =
     (Returned (Inl (js ''The resource already exists'')), bucket_with_cat) \<and>
   bucket_with_cat (js ''1700000000000-cat.png'') = Some notes_txt \<and>
   fst (handleSubmit env_bucket draft_cat bucket_with_cat) =
     [UploadImage cat_png (js ''1700000000000-cat.png'')] \<and>
   toString 1700000000000 @ js ''-'' @ js ''cat.png'' \<noteq>
     toString 1700000000001 @ js ''-'' @ js ''cat.png''"
proof -
  have taken: "bucket_with_cat (js ''1700000000000-cat.png'') = Some notes_txt"
    by (simp add: bucket_with_cat_def)
  have chosen: "selectedFile draft_cat = Some cat_png \<and> length (message draft_cat) \<le> 280"
    by (simp add: draft_cat_def js_def)
  have fileName: "toString (Date_now env_bucket) @ js ''-'' @ name cat_png =
      js ''1700000000000-cat.png''"
    by (simp add: env_bucket_def cat_png_def js_def toString.simps)
  have calls: "fst (handleSubmit env_bucket draft_cat bucket_with_cat) \<noteq>
      [UploadImage cat_png (js ''1700000000000-cat.png''),
       CreatePost (message draft_cat) (Some (getPublicUrl env_bucket (js ''1700000000000-cat.png'')))]"
    by (simp add: handleSubmit_unfold draft_cat_def initial_def env_bucket_def trim_def
        isWhiteSpace_def js_def MAX_CHARACTERS_def uploadImage_def blob_upload_def
        bucket_with_cat_def cat_png_def toString.simps handleSupabaseError_def Let_def)
  have clock: "(1700000000000 :: nat) \<noteq> 1700000000001" by simp
  have names: "(toString 1700000000000 @ js ''-'' @ js ''cat.png'' =
      toString 1700000000001 @ js ''-'' @ js ''cat.png'') =
      ((1700000000000 :: nat) = 1700000000001 \<and> js ''cat.png'' = js ''cat.png'')"
    using upload_never_overwrites [of bucket_with_cat "js ''1700000000000-cat.png''" bucket_url
        cat_png draft_cat cat_png env_bucket bucket_with_cat 1700000000000 "js ''cat.png''"
        1700000000001 "js ''cat.png''" blob_upload bucket_with_cat]
    by blast
  have rest: "uploadImage blob_upload bucket_url cat_png (js ''1700000000000-cat.png'')
      bucket_with_cat = (Returned (Inl (js ''The resource already exists'')), bucket_with_cat) \<and>
    (fst (handleSubmit env_bucket draft_cat bucket_with_cat) =
       [UploadImage cat_png (toString (Date_now env_bucket) @ js ''-'' @ name cat_png)] \<or>
     fst (handleSubmit env_bucket draft_cat bucket_with_cat) =
       [UploadImage cat_png (toString (Date_now env_bucket) @ js ''-'' @ name cat_png),
        CreatePost (message draft_cat)
          (Some (getPublicUrl env_bucket
             (toString (Date_now env_bucket) @ js ''-'' @ name cat_png)))])"
    using taken chosen
      upload_never_overwrites [of bucket_with_cat "js ''1700000000000-cat.png''" bucket_url
        cat_png draft_cat cat_png env_bucket bucket_with_cat 1700000000000 "js ''cat.png''"
        1700000000001 "js ''cat.png''" blob_upload bucket_with_cat]
    by blast
  from rest calls fileName taken names clock show ?thesis by auto
qed

section \<open>Re-entrancy\<close>

text \<open>
  Claim C9 as stated: while a submission is in flight, triggering submission again makes
  no gateway call. \<open>handleSubmit\<close> does not read \<open>isSubmitting\<close>: after a click has put a
  submission in flight, a submit event dispatched on the form starts a second one, with
  a second \<open>createPost\<close> call.
\<close>

theorem dispatched_submit_reenters:
  "isSubmitting (cells (snd (run [Typed (js ''hello''), ShareClicked 1700000000000]
     (mounted :: nat App)))) \<and>
   fst (run [Typed (js ''hello''), ShareClicked 1700000000000, SubmitDispatched 1700000000005]
     (mounted :: nat App)) =
     [CreatePost (js ''hello'') None, CreatePost (js ''hello'') None] \<and>
   inflight (snd (run
     [Typed (js ''hello''), ShareClicked 1700000000000, SubmitDispatched 1700000000005]
     (mounted :: nat App))) =
     [AwaitCreate (js ''hello'') None, AwaitCreate (js ''hello'') None]"
  by (simp add: mounted_def initial_def onChange_def disabled_def submit_def
      handleSubmit_enter_def trim_def isWhiteSpace_def js_def MAX_CHARACTERS_def)

text \<open>
  Claim C9, amended: with submissions started from the submit button, at most one
  submission is in flight at a time, and \<open>isSubmitting\<close> is true exactly while one is:
  this holds after any sequence of events of the page, gateway calls settling in
  between. While \<open>isSubmitting\<close> is true the button is disabled, and a click on it makes
  no gateway call and changes nothing. The gate is the button's \<open>disabled\<close> attribute
  alone: a submit event dispatched on the form with a draft that passes the guards
  makes a gateway call and puts one more submission in flight, whatever \<open>isSubmitting\<close>
  is.
\<close>

theorem one_submission_in_flight_by_clicks:
  "((\<forall>e\<in>set es. \<not> scripted e) \<longrightarrow>
      length (inflight (snd (run es mounted))) \<le> 1 \<and>
      (isSubmitting (cells (snd (run es mounted))) \<longleftrightarrow> inflight (snd (run es mounted)) \<noteq> [])) \<and>
   (isSubmitting (cells a) \<longrightarrow> disabled (cells a) \<and> react (ShareClicked now) a = ([], a)) \<and>
   (valid_draft (cells a) \<longrightarrow>
      (\<exists>t. react (SubmitDispatched now) a =
         ([awaited t],
          \<lparr>cells = (cells a)\<lparr>isSubmitting := True, error := None\<rparr>,
           inflight = inflight a @ [t]\<rparr>)))"
proof -
  have clicks: "(\<forall>e\<in>set es. \<not> scripted e) \<longrightarrow>
      length (inflight (snd (run es mounted))) \<le> 1 \<and>
      (isSubmitting (cells (snd (run es mounted))) \<longleftrightarrow> inflight (snd (run es mounted)) \<noteq> [])"
    using one_at_a_time_flag [of "snd (run es mounted)"]
      run_keeps_one_at_a_time [of es mounted] one_at_a_time_mounted
    by blast
  have gate: "isSubmitting (cells a) \<longrightarrow> disabled (cells a) \<and> react (ShareClicked now) a = ([], a)"
    using click_in_flight [of a now] by blast
  have script: "valid_draft (cells a) \<longrightarrow>
      (\<exists>t. react (SubmitDispatched now) a =
         ([awaited t],
          \<lparr>cells = (cells a)\<lparr>isSubmitting := True, error := None\<rparr>,
           inflight = inflight a @ [t]\<rparr>))"
    using submit_valid [of a now] by auto
  from clicks gate script show ?thesis by (intro conjI)
qed

theorem one_submission_in_flight_by_clicks_witness:
  "run [Typed (js ''hello''), ShareClicked 1700000000000, ShareClicked 1700000000005,
        Notified post6] mounted =
     ([CreatePost (js ''hello'') None],
      \<lparr>cells = initial\<lparr>posts := [post6], message := js ''hello'', isSubmitting := True\<rparr>,
       inflight = [AwaitCreate (js ''hello'') None]\<rparr>) \<and>
   length (inflight (snd (run
     [Typed (js ''hello''), ShareClicked 1700000000000, ShareClicked 1700000000005,
      Notified post6] mounted))) \<le> 1 \<and>
   isSubmitting (cells (snd (run
     [Typed (js ''hello''), ShareClicked 1700000000000, ShareClicked 1700000000005,
      Notified post6] mounted)))"
proof -
  have ui: "\<forall>e\<in>set [Typed (js ''hello''), ShareClicked 1700000000000,
      ShareClicked 1700000000005, Notified post6]. \<not> scripted e"
    by simp
  have there: "run [Typed (js ''hello''), ShareClicked 1700000000000,
      ShareClicked 1700000000005, Notified post6] mounted =
     ([CreatePost (js ''hello'') None],
      \<lparr>cells = initial\<lparr>posts := [post6], message := js ''hello'', isSubmitting := True\<rparr>,
       inflight = [AwaitCreate (js ''hello'') None]\<rparr>)"
    by (simp add: mounted_def initial_def onChange_def disabled_def submit_def
        handleSubmit_enter_def trim_def isWhiteSpace_def js_def MAX_CHARACTERS_def
        postsSubscription_def)
  show ?thesis
    using ui there
      one_submission_in_flight_by_clicks
        [of "[Typed (js ''hello''), ShareClicked 1700000000000, ShareClicked 1700000000005,
              Notified post6]" mounted 0]
    by simp
qed

section \<open>File selection\<close>

text \<open>
  Claim C10: selecting a file whose media type does not start with \<open>image/\<close> sets
  \<open>selectedFile\<close> to it and changes nothing else, so an earlier preview stays. Selecting
  any file sets \<open>selectedFile\<close>; the preview changes only for a media type starting with
  \<open>image/\<close>, to what the reader gives. Only an empty selection discards file and preview.
\<close>

theorem non_image_keeps_preview:
  "(\<not> prefix (js ''image/'') (type f) \<longrightarrow>
      handleFileChange rd (f # fs) s = s\<lparr>selectedFile := Some f\<rparr> \<and>
      filePreview (handleFileChange rd (f # fs) s) = filePreview s) \<and>
   selectedFile (handleFileChange rd (f # fs) s) = Some f \<and>
   (filePreview (handleFileChange rd (f # fs) s) \<noteq> filePreview s \<longrightarrow>
      prefix (js ''image/'') (type f) \<and> filePreview (handleFileChange rd (f # fs) s) = rd f) \<and>
   handleFileChange rd [] s = s\<lparr>selectedFile := None, filePreview := None\<rparr>"
  by (auto simp add: handleFileChange_def Let_def split: option.splits)

theorem non_image_keeps_preview_witness:
  "handleFileChange (\<lambda>f. None) [notes_txt] draft_cat = draft_cat\<lparr>selectedFile := Some notes_txt\<rparr> \<and>
   filePreview (handleFileChange (\<lambda>f. None) [notes_txt] draft_cat) =
     Some (js ''data:image/png;base64,iVBORw=='')"
proof -
  have a: "\<not> prefix (js ''image/'') (type notes_txt)" by (simp add: notes_txt_def js_def)
  show ?thesis using a non_image_keeps_preview [of notes_txt "\<lambda>f. None" "[]" draft_cat]
    by (simp add: draft_cat_def)
qed

end
